theory Spec2Isabelle
  imports Main
begin

section \<open>energy\_plus\_wrapper: installer manager and report converter\<close>

text \<open>
  A shallow embedding of \<^verbatim>\<open>src/energyplus_wrapper/env_manager.py\<close> and
  \<^verbatim>\<open>energyplus_wrapper/utils.py\<close>. Python \<^verbatim>\<open>str\<close> and \<^verbatim>\<open>bytes\<close> are
  both modelled as \<^typ>\<open>string\<close> (a list of 8-bit characters; text is its UTF-8
  encoding). Where Python works code point by code point (the \<^verbatim>\<open>re\<close> module,
  \<^verbatim>\<open>str.strip\<close>), the model cuts the encoding into code points first.
  \<^verbatim>\<open>str.lower\<close> is modelled on the ASCII letters. A leading underscore of a
  Python name is dropped, since an Isabelle name starts with a letter.
\<close>

subsection \<open>Exceptions\<close>

text \<open>
  The exceptions the two modules raise or let through. The source raises
  \<^verbatim>\<open>ValueError\<close> with three different messages; the specification calls them
  UnsupportedPlatform, PatternMismatch and NotDownloadable.
\<close>

datatype error =
    ValueError string
  | AttributeError
  | TypeError
  | KeyError
  | UnicodeDecodeError
  | OSError
  | RequestException
  | PexpectError
  | PandasError

definition UnsupportedPlatform :: "string \<Rightarrow> error" where
  "UnsupportedPlatform sys =
     ValueError (''Your system ('' @ sys @ '') is not supported yet.''
                 @ '' You have to install EnergyPlus by yourself.'')"

definition PatternMismatch :: error where
  "PatternMismatch = ValueError ''URL does not match the EnergyPlus filename pattern.''"

definition NotDownloadable :: error where
  "NotDownloadable = ValueError ''URL is not a downloadable file.''"

subsection \<open>String operations of Python\<close>

fun is_prefix :: "string \<Rightarrow> string \<Rightarrow> bool" where
  "is_prefix [] s = True"
| "is_prefix (p # ps) [] = False"
| "is_prefix (p # ps) (c # cs) = (p = c \<and> is_prefix ps cs)"

text \<open>\<^verbatim>\<open>sub in s\<close>\<close>

fun contains :: "string \<Rightarrow> string \<Rightarrow> bool" where
  "contains sub [] = (sub = [])"
| "contains sub (c # cs) = (is_prefix sub (c # cs) \<or> contains sub cs)"

text \<open>
  \<^verbatim>\<open>s.replace(old, new)\<close>: every non-overlapping occurrence of \<^verbatim>\<open>old\<close>,
  scanning from the left, is replaced; the text after a replaced occurrence is
  not scanned again from inside the replacement.
\<close>

fun replace_nonempty :: "string \<Rightarrow> string \<Rightarrow> string \<Rightarrow> string" where
  "replace_nonempty old new [] = []"
| "replace_nonempty old new (c # cs) =
     (if old \<noteq> [] \<and> is_prefix old (c # cs)
      then new @ replace_nonempty old new (drop (length old) (c # cs))
      else c # replace_nonempty old new cs)"

definition str_replace :: "string \<Rightarrow> string \<Rightarrow> string \<Rightarrow> string" where
  "str_replace old new s =
     (if old = [] then new @ concat (map (\<lambda>c. c # new) s)
      else replace_nonempty old new s)"

definition ascii_upper :: string where
  "ascii_upper = ''ABCDEFGHIJKLMNOPQRSTUVWXYZ''"

definition ascii_lower :: string where
  "ascii_lower = ''abcdefghijklmnopqrstuvwxyz''"

definition ascii_digits :: string where
  "ascii_digits = ''0123456789''"

definition lower_char :: "char \<Rightarrow> char" where
  "lower_char c = (case map_of (zip ascii_upper ascii_lower) c of None \<Rightarrow> c | Some l \<Rightarrow> l)"

definition lower :: "string \<Rightarrow> string" where
  "lower s = map lower_char s"

text \<open>
  The code points of a string, each as its UTF-8 encoding: the lead byte says
  how many bytes belong to it.
\<close>

definition utf8_width :: "char \<Rightarrow> nat" where
  "utf8_width c =
     (if (of_char c :: nat) < 192 then 1
      else if (of_char c :: nat) < 224 then 2
      else if (of_char c :: nat) < 240 then 3
      else 4)"

fun code_points :: "string \<Rightarrow> string list" where
  "code_points [] = []"
| "code_points (c # cs) =
     (c # take (utf8_width c - 1) cs) # code_points (drop (utf8_width c - 1) cs)"

text \<open>
  \<^verbatim>\<open>str.strip()\<close> removes the white space of Python at both ends: the code
  points U+0009 to U+000D, U+001C to U+0020, U+0085, U+00A0, U+1680, U+2000 to
  U+200A, U+2028, U+2029, U+202F, U+205F and U+3000.
\<close>

definition whitespace :: "string list" where
  "whitespace =
     map (\<lambda>c. [c])
       [CHR 0x09, CHR 0x0A, CHR 0x0B, CHR 0x0C, CHR 0x0D,
        CHR 0x1C, CHR 0x1D, CHR 0x1E, CHR 0x1F, CHR 0x20] @
     [[CHR 0xC2, CHR 0x85], [CHR 0xC2, CHR 0xA0], [CHR 0xE1, CHR 0x9A, CHR 0x80]] @
     map (\<lambda>c. [CHR 0xE2, CHR 0x80, c])
       [CHR 0x80, CHR 0x81, CHR 0x82, CHR 0x83, CHR 0x84, CHR 0x85, CHR 0x86, CHR 0x87,
        CHR 0x88, CHR 0x89, CHR 0x8A, CHR 0xA8, CHR 0xA9, CHR 0xAF] @
     [[CHR 0xE2, CHR 0x81, CHR 0x9F], [CHR 0xE3, CHR 0x80, CHR 0x80]]"

definition is_space :: "string \<Rightarrow> bool" where
  "is_space p = (p \<in> set whitespace)"

definition strip :: "string \<Rightarrow> string" where
  "strip s =
     concat (rev (dropWhile is_space (rev (dropWhile is_space (code_points s)))))"

subsection \<open>The installer file name pattern\<close>

text \<open>
  \<^verbatim>\<open>eplus_filename_pattern\<close> is
  \<^verbatim>\<open>.*?(?P<filename>EnergyPlus-(?P<version>\d+.\d+.\d+)-(?P<revision>\w+)-(?P<platform>.*?).sh)$\<close>.
  The pattern is a sequence of single-character items, quantified character
  classes, group brackets and the end anchor, so it is kept as a flat list.
  The dots of the pattern are not escaped: each is the class \<open>Any\<close> (every
  code point but a newline), also the two inside the version and the one before
  \<^verbatim>\<open>sh\<close>.

  On a \<^verbatim>\<open>str\<close> the classes \<^verbatim>\<open>\d\<close> and \<^verbatim>\<open>\w\<close> follow the Unicode
  database of the interpreter: the decimal digits, and the alphanumeric code
  points with the underscore. On ASCII these are \<^verbatim>\<open>0-9\<close> and
  \<^verbatim>\<open>a-zA-Z0-9_\<close>; beyond ASCII the two tables are a parameter, asked with the
  encoding of the code point.
\<close>

record ucd =
  decimal :: "string \<Rightarrow> bool"
  alnum :: "string \<Rightarrow> bool"

datatype cclass = Any | Digit | Word | Lit char

definition is_ascii :: "string \<Rightarrow> bool" where
  "is_ascii p = (case p of [c] \<Rightarrow> (of_char c :: nat) < 128 | _ \<Rightarrow> False)"

fun in_class :: "ucd \<Rightarrow> cclass \<Rightarrow> string \<Rightarrow> bool" where
  "in_class U Any p = (p \<noteq> [CHR 0x0A])"
| "in_class U Digit p =
     (if is_ascii p then p \<in> set (map (\<lambda>c. [c]) ascii_digits) else decimal U p)"
| "in_class U Word p =
     (if is_ascii p
      then p \<in> set (map (\<lambda>c. [c]) (ascii_lower @ ascii_upper @ ascii_digits @ ''_''))
      else alnum U p)"
| "in_class U (Lit l) p = (p = [l])"

datatype item =
    One cclass
  | LazyStar cclass
  | GreedyPlus cclass
  | Open string
  | Close
  | Eol

definition lits :: "string \<Rightarrow> item list" where
  "lits s = map (\<lambda>c. One (Lit c)) s"

definition eplus_filename_pattern :: "item list" where
  "eplus_filename_pattern =
     [LazyStar Any, Open ''filename''] @ lits ''EnergyPlus-'' @
     [Open ''version'', GreedyPlus Digit, One Any, GreedyPlus Digit, One Any,
      GreedyPlus Digit, Close, One (Lit CHR ''-''),
      Open ''revision'', GreedyPlus Word, Close, One (Lit CHR ''-''),
      Open ''platform'', LazyStar Any, Close, One Any] @ lits ''sh'' @
     [Close, Eol]"

text \<open>
  The matcher is the backtracking search of \<^verbatim>\<open>re\<close> over the code points of
  the string: a lazy star first tries the rest of the pattern and takes one more
  code point only when that fails, a greedy plus first takes as many as it can. The open groups are a stack of
  (name, text consumed since the bracket); a closing bracket moves the innermost
  one to the finished groups. \<^verbatim>\<open>$\<close> (no MULTILINE flag) holds at the end of the
  string and just before a newline that ends the string. Nothing is required
  after the last item (\<^verbatim>\<open>re.match\<close> anchors the start only).
\<close>

type_synonym groups = "(string \<times> string) list"

definition feed :: "string \<Rightarrow> groups \<Rightarrow> groups" where
  "feed ys opn = map (\<lambda>(n, t). (n, t @ ys)) opn"

fun rmatch ::
    "ucd \<Rightarrow> item list \<Rightarrow> string list \<Rightarrow> groups \<Rightarrow> groups \<Rightarrow> groups option" where
  "rmatch U [] s opn fin = Some fin"
| "rmatch U (One c # ps) [] opn fin = None"
| "rmatch U (One c # ps) (x # xs) opn fin =
     (if in_class U c x then rmatch U ps xs (feed x opn) fin else None)"
| "rmatch U (LazyStar c # ps) [] opn fin = rmatch U ps [] opn fin"
| "rmatch U (LazyStar c # ps) (x # xs) opn fin =
     (case rmatch U ps (x # xs) opn fin of
        Some r \<Rightarrow> Some r
      | None \<Rightarrow>
          if in_class U c x then rmatch U (LazyStar c # ps) xs (feed x opn) fin else None)"
| "rmatch U (GreedyPlus c # ps) [] opn fin = None"
| "rmatch U (GreedyPlus c # ps) (x # xs) opn fin =
     (if in_class U c x
      then (case rmatch U (GreedyPlus c # ps) xs (feed x opn) fin of
              Some r \<Rightarrow> Some r
            | None \<Rightarrow> rmatch U ps xs (feed x opn) fin)
      else None)"
| "rmatch U (Open n # ps) s opn fin = rmatch U ps s ((n, []) # opn) fin"
| "rmatch U (Close # ps) s [] fin = rmatch U ps s [] fin"
| "rmatch U (Close # ps) s (g # opn) fin = rmatch U ps s opn (g # fin)"
| "rmatch U (Eol # ps) s opn fin =
     (if s = [] \<or> s = [[CHR 0x0A]] then rmatch U ps s opn fin else None)"

text \<open>\<^verbatim>\<open>re.match(pattern, string)\<close> followed by \<^verbatim>\<open>groupdict()\<close>.\<close>

definition re_match_groupdict ::
    "ucd \<Rightarrow> item list \<Rightarrow> string \<Rightarrow> (string \<rightharpoonup> string) option" where
  "re_match_groupdict U pat s = map_option map_of (rmatch U pat (code_points s) [] [])"

definition extract_filename_info :: "ucd \<Rightarrow> string \<Rightarrow> error + (string \<rightharpoonup> string)" where
  "extract_filename_info U url =
     (case re_match_groupdict U eplus_filename_pattern url of
        None \<Rightarrow> Inl PatternMismatch
      | Some d \<Rightarrow> Inr d)"

subsection \<open>Paths, the file system and the outside world\<close>

text \<open>
  A \<^verbatim>\<open>pathlib.Path\<close> is a list of components, absolute or relative to the
  working directory. The file system maps resolved component lists to nodes; the
  root always is a directory. Symbolic links and \<^verbatim>\<open>..\<close> are not modelled.
\<close>

datatype ppath = Abs "string list" | Rel "string list"

datatype node = File string | Dir

type_synonym fs = "(string list \<times> node) list"

fun splitc :: "char \<Rightarrow> string \<Rightarrow> string \<Rightarrow> string list" where
  "splitc d cur [] = [cur]"
| "splitc d cur (c # cs) = (if c = d then cur # splitc d [] cs else splitc d (cur @ [c]) cs)"

definition components :: "string \<Rightarrow> string list" where
  "components s = filter (\<lambda>p. p \<noteq> [] \<and> p \<noteq> ''.'') (splitc CHR ''/'' [] s)"

text \<open>\<^verbatim>\<open>p / s\<close> for a string \<^verbatim>\<open>s\<close>\<close>

definition join :: "ppath \<Rightarrow> string \<Rightarrow> ppath" where
  "join p s =
     (if is_prefix ''/'' s then Abs (components s)
      else (case p of Abs xs \<Rightarrow> Abs (xs @ components s) | Rel xs \<Rightarrow> Rel (xs @ components s)))"

fun intercalate :: "string \<Rightarrow> string list \<Rightarrow> string" where
  "intercalate sep [] = []"
| "intercalate sep [x] = x"
| "intercalate sep (x # y # ys) = x @ sep @ intercalate sep (y # ys)"

text \<open>\<^verbatim>\<open>str(p)\<close>\<close>

fun path_str :: "ppath \<Rightarrow> string" where
  "path_str (Abs xs) = ''/'' @ intercalate ''/'' xs"
| "path_str (Rel xs) = (if xs = [] then ''.'' else intercalate ''/'' xs)"

datatype pattern = CRLF | EOF

datatype event =
    EvMkdir "string list"
  | EvLockAcquire "string list"
  | EvLockRelease "string list"
  | EvExists "string list"
  | EvRmtree "string list"
  | EvMkdtemp "string list"
  | EvCleanup "string list"
  | EvHead string
  | EvGet string
  | EvWrite "string list"
  | EvSpawn string
  | EvExpect pattern
  | EvSendline string
  | EvClose

text \<open>
  What the code cannot decide itself is a parameter: the platform name, the
  Unicode tables of the interpreter, the working directory, the answers of the network (\<open>None\<close> when \<^verbatim>\<open>requests\<close>
  raises; for HEAD otherwise the \<^verbatim>\<open>content-type\<close> header, if any), the
  directory \<^verbatim>\<open>TemporaryDirectory\<close> creates, whether an \<^verbatim>\<open>expect\<close> of the
  spawned child succeeds after the interaction so far, and what the child has done
  to the file system when it is closed.
\<close>

record env =
  platform_system :: string
  unicode :: ucd
  cwd :: "string list"
  http_head :: "string \<Rightarrow> string option option"
  http_get :: "string \<Rightarrow> string option"
  tempdir :: "string list"
  expect_ok :: "event list \<Rightarrow> bool"
  installer_effect :: "event list \<Rightarrow> fs \<Rightarrow> fs"

record world =
  files :: fs
  trace :: "event list"

type_synonym 'a io = "world \<Rightarrow> (error + 'a) \<times> world"

definition ret :: "'a \<Rightarrow> 'a io" where
  "ret x w = (Inr x, w)"

definition raise :: "error \<Rightarrow> 'a io" where
  "raise e w = (Inl e, w)"

definition bindM :: "'a io \<Rightarrow> ('a \<Rightarrow> 'b io) \<Rightarrow> 'b io" where
  "bindM m f w = (case m w of (Inl e, w') \<Rightarrow> (Inl e, w') | (Inr x, w') \<Rightarrow> f x w')"

text \<open>The exit of a \<^verbatim>\<open>with\<close> block: it runs on every way out of the body.\<close>

definition finallyM :: "'a io \<Rightarrow> (world \<Rightarrow> world) \<Rightarrow> 'a io" where
  "finallyM m fin w = (case m w of (r, w') \<Rightarrow> (r, fin w'))"

definition emit :: "event \<Rightarrow> unit io" where
  "emit e w = (Inr (), w\<lparr>trace := trace w @ [e]\<rparr>)"

definition resolve :: "env \<Rightarrow> ppath \<Rightarrow> string list" where
  "resolve E p = (case p of Abs xs \<Rightarrow> xs | Rel xs \<Rightarrow> cwd E @ xs)"

text \<open>\<^verbatim>\<open>p.absolute()\<close>\<close>

definition absolute :: "env \<Rightarrow> ppath \<Rightarrow> ppath" where
  "absolute E p = Abs (resolve E p)"

definition fs_lookup :: "fs \<Rightarrow> string list \<Rightarrow> node option" where
  "fs_lookup f p = (if p = [] then Some Dir else map_of f p)"

definition fs_put :: "string list \<Rightarrow> node \<Rightarrow> fs \<Rightarrow> fs" where
  "fs_put p n f = (p, n) # filter (\<lambda>(q, _). q \<noteq> p) f"

fun list_prefix :: "string list \<Rightarrow> string list \<Rightarrow> bool" where
  "list_prefix [] q = True"
| "list_prefix (a # p) [] = False"
| "list_prefix (a # p) (b # q) = (a = b \<and> list_prefix p q)"

definition remove_tree :: "string list \<Rightarrow> fs \<Rightarrow> fs" where
  "remove_tree p f = filter (\<lambda>(q, _). \<not> list_prefix p q) f"

fun mkdirs :: "string list \<Rightarrow> string list \<Rightarrow> fs \<Rightarrow> fs option" where
  "mkdirs pre [] f = Some f"
| "mkdirs pre (c # cs) f =
     (case fs_lookup f (pre @ [c]) of
        Some (File _) \<Rightarrow> None
      | Some Dir \<Rightarrow> mkdirs (pre @ [c]) cs f
      | None \<Rightarrow> mkdirs (pre @ [c]) cs (fs_put (pre @ [c]) Dir f))"

text \<open>
  \<^verbatim>\<open>p.mkdir(exist_ok=True, parents=True)\<close>: missing ancestors are created; a
  regular file on the way is an \<^verbatim>\<open>OSError\<close>.
\<close>

definition mkdir :: "env \<Rightarrow> ppath \<Rightarrow> unit io" where
  "mkdir E p =
     bindM (emit (EvMkdir (resolve E p)))
       (\<lambda>_ w. case mkdirs [] (resolve E p) (files w) of
                 None \<Rightarrow> (Inl OSError, w)
               | Some f \<Rightarrow> (Inr (), w\<lparr>files := f\<rparr>))"

text \<open>\<^verbatim>\<open>p.exists()\<close>\<close>

definition path_exists :: "env \<Rightarrow> ppath \<Rightarrow> bool io" where
  "path_exists E p =
     bindM (emit (EvExists (resolve E p)))
       (\<lambda>_ w. (Inr (fs_lookup (files w) (resolve E p) \<noteq> None), w))"

text \<open>
  \<^verbatim>\<open>p.glob("*")\<close> builds a generator over the children of \<^verbatim>\<open>p\<close>; nothing
  is read until it is iterated. A generator object defines neither
  \<^verbatim>\<open>__bool__\<close> nor \<^verbatim>\<open>__len__\<close>, so its truth value is \<^verbatim>\<open>True\<close> whatever
  it would yield.
\<close>

definition glob_star :: "fs \<Rightarrow> string list \<Rightarrow> string list list" where
  "glob_star f p = filter (\<lambda>q. q \<noteq> [] \<and> butlast q = p) (map fst f)"

definition generator_truth :: "'a list \<Rightarrow> bool" where
  "generator_truth g = True"

text \<open>
  \<^verbatim>\<open>shutil.rmtree(p, ignore_errors=True)\<close>: a directory goes with everything
  below it; on a missing path or a regular file the error is ignored.
\<close>

definition rmtree :: "env \<Rightarrow> ppath \<Rightarrow> unit io" where
  "rmtree E p =
     bindM (emit (EvRmtree (resolve E p)))
       (\<lambda>_ w. (Inr (), (if fs_lookup (files w) (resolve E p) = Some Dir \<and> resolve E p \<noteq> []
                         then w\<lparr>files := remove_tree (resolve E p) (files w)\<rparr> else w)))"

text \<open>\<^verbatim>\<open>open(path, "wb")\<close> and \<^verbatim>\<open>write\<close>\<close>

definition write_file :: "env \<Rightarrow> ppath \<Rightarrow> string \<Rightarrow> unit io" where
  "write_file E p content =
     bindM (emit (EvWrite (resolve E p)))
       (\<lambda>_ w. if resolve E p \<noteq> []
                  \<and> fs_lookup (files w) (butlast (resolve E p)) = Some Dir
                  \<and> fs_lookup (files w) (resolve E p) \<noteq> Some Dir
               then (Inr (), w\<lparr>files := fs_put (resolve E p) (File content) (files w)\<rparr>)
               else (Inl OSError, w))"

text \<open>
  \<^verbatim>\<open>with fasteners.InterProcessLock(p)\<close>: the lock file is opened for
  appending (created when missing), the call blocks until the lock is held, and
  the lock is released on every way out of the block.
\<close>

definition with_lock :: "env \<Rightarrow> ppath \<Rightarrow> 'a io \<Rightarrow> 'a io" where
  "with_lock E p body =
     bindM (emit (EvLockAcquire (resolve E p)))
       (\<lambda>_ w. case fs_lookup (files w) (resolve E p) of
                 Some Dir \<Rightarrow> (Inl OSError, w)
               | Some (File _) \<Rightarrow>
                   finallyM body (\<lambda>w'. w'\<lparr>trace := trace w' @ [EvLockRelease (resolve E p)]\<rparr>) w
               | None \<Rightarrow>
                   (if fs_lookup (files w) (butlast (resolve E p)) = Some Dir
                    then finallyM body
                           (\<lambda>w'. w'\<lparr>trace := trace w' @ [EvLockRelease (resolve E p)]\<rparr>)
                           (w\<lparr>files := fs_put (resolve E p) (File []) (files w)\<rparr>)
                    else (Inl OSError, w)))"

text \<open>\<^verbatim>\<open>with TempDir() as d\<close>: the directory is removed on every way out.\<close>

definition with_tempdir :: "env \<Rightarrow> (ppath \<Rightarrow> 'a io) \<Rightarrow> 'a io" where
  "with_tempdir E body =
     bindM (emit (EvMkdtemp (tempdir E)))
       (\<lambda>_ w. finallyM (body (Abs (tempdir E)))
                 (\<lambda>w'. w'\<lparr>files := remove_tree (tempdir E) (files w'),
                          trace := trace w' @ [EvCleanup (tempdir E)]\<rparr>)
                 (w\<lparr>files := fs_put (tempdir E) Dir (files w)\<rparr>))"

subsection \<open>env\_manager.py\<close>

definition is_downloadable :: "env \<Rightarrow> string \<Rightarrow> bool io" where
  "is_downloadable E url =
     bindM (emit (EvHead url))
       (\<lambda>_. case http_head E url of
               None \<Rightarrow> raise RequestException
             | Some None \<Rightarrow> ret False
             | Some (Some content_type) \<Rightarrow>
                 (if contains ''text'' (lower content_type) then ret False
                  else if contains ''html'' (lower content_type) then ret False
                  else ret True))"

definition download_eplus_version :: "env \<Rightarrow> string \<Rightarrow> ppath \<Rightarrow> unit io" where
  "download_eplus_version E url path =
     bindM (is_downloadable E url)
       (\<lambda>ok. if \<not> ok then raise NotDownloadable
              else bindM (emit (EvGet url))
                     (\<lambda>_. case http_get E url of
                             None \<Rightarrow> raise RequestException
                           | Some content \<Rightarrow> write_file E path content))"

text \<open>\<^verbatim>\<open>child.expect(pat)\<close> raises (\<^verbatim>\<open>TIMEOUT\<close> or \<^verbatim>\<open>EOF\<close>) when it fails.\<close>

definition expect :: "env \<Rightarrow> pattern \<Rightarrow> unit io" where
  "expect E pat =
     bindM (emit (EvExpect pat))
       (\<lambda>_ w. if expect_ok E (trace w) then (Inr (), w) else (Inl PexpectError, w))"

definition sendline :: "string \<Rightarrow> unit io" where
  "sendline s = emit (EvSendline s)"

definition extract_and_install :: "env \<Rightarrow> string \<Rightarrow> string \<Rightarrow> unit io" where
  "extract_and_install E setup_script eplus_folder =
     bindM (emit (EvSpawn (''bash '' @ setup_script)))
       (\<lambda>_. finallyM
          (bindM (expect E CRLF) (\<lambda>_.
           bindM (sendline ''y'') (\<lambda>_.
           bindM (sendline eplus_folder) (\<lambda>_.
           bindM (expect E CRLF) (\<lambda>_.
           bindM (sendline ''n'') (\<lambda>_.
           expect E EOF))))))
          (\<lambda>w. w\<lparr>files := installer_effect E (trace w @ [EvClose]) (files w),
                  trace := trace w @ [EvClose]\<rparr>))"

definition url_to_installed :: "env \<Rightarrow> string \<Rightarrow> ppath \<Rightarrow> ppath \<Rightarrow> unit io" where
  "url_to_installed E url eplus_folder script_path =
     bindM (path_exists E script_path)
       (\<lambda>ex. bindM (if \<not> ex then download_eplus_version E url script_path else ret ())
          (\<lambda>_. extract_and_install E (path_str script_path) (path_str eplus_folder)))"

definition getitem :: "(string \<rightharpoonup> 'a) \<Rightarrow> string \<Rightarrow> 'a io" where
  "getitem d k = (case d k of None \<Rightarrow> raise KeyError | Some v \<Rightarrow> ret v)"

definition expected_folder :: "ppath \<Rightarrow> string \<Rightarrow> ppath" where
  "expected_folder eplus_folder version =
     join eplus_folder (''EnergyPlus-'' @ str_replace ''.'' ''-'' version)"

definition ensure_eplus_root :: "env \<Rightarrow> string \<Rightarrow> ppath \<Rightarrow> ppath option \<Rightarrow> ppath io" where
  "ensure_eplus_root E url eplus_folder installer_cache =
     (if platform_system E \<noteq> ''Linux'' then raise (UnsupportedPlatform (platform_system E))
      else
        bindM (mkdir E eplus_folder) (\<lambda>_.
        with_lock E (join eplus_folder ''.lock'')
          (case extract_filename_info (unicode E) url of
             Inl e \<Rightarrow> raise e
           | Inr finfo \<Rightarrow>
               bindM (getitem finfo ''filename'') (\<lambda>filename.
               bindM (getitem finfo ''version'') (\<lambda>version.
               bindM (path_exists E (expected_folder eplus_folder version)) (\<lambda>ex w.
                 if ex \<and> generator_truth
                           (glob_star (files w) (resolve E (expected_folder eplus_folder version)))
                 then ret (absolute E (expected_folder eplus_folder version)) w
                 else
                   bindM (rmtree E (expected_folder eplus_folder version)) (\<lambda>_.
                   bindM (case installer_cache of
                            None \<Rightarrow>
                              with_tempdir E
                                (\<lambda>d. url_to_installed E url eplus_folder (join d filename))
                          | Some cache \<Rightarrow>
                              bindM (mkdir E cache)
                                (\<lambda>_. url_to_installed E url eplus_folder (join cache filename)))
                     (\<lambda>_. ret (absolute E (expected_folder eplus_folder version)))) w))))))"

subsection \<open>utils.py: the HTML report\<close>

text \<open>
  The document is given by what BeautifulSoup finds around each of its
  \<^verbatim>\<open>table\<close> elements, in document order:
  \<^item> \<open>prev_report\<close>: the result of
    \<^verbatim>\<open>table.find_previous(text=re.compile(r"Report:(.*)", re.DOTALL))\<close>,
    \<open>None\<close> when no earlier text matches; a found text node carries the result
    of its \<^verbatim>\<open>find_next_sibling("b")\<close>, \<open>None\<close> or the text of that element;
  \<^item> \<open>prev_sibling_b\<close>: \<^verbatim>\<open>table.find_previous_sibling("b")\<close>, \<open>None\<close> or
    the text of that element;
  \<^item> \<open>read_html\<close>: the data frame
    \<^verbatim>\<open>pd.read_html(str(table), index_col=0, header=0)[0].dropna(how="all")\<close>,
    \<open>None\<close> when pandas raises.
  An attribute access on \<^verbatim>\<open>None\<close> raises \<^verbatim>\<open>AttributeError\<close>.
\<close>

datatype text_node = TextNode (next_sibling_b: "string option")

record 'df html_table =
  prev_report :: "text_node option"
  prev_sibling_b :: "string option"
  read_html :: "'df option"

definition find_section :: "'df html_table \<Rightarrow> error + string" where
  "find_section t =
     (case prev_report t of
        None \<Rightarrow> Inl AttributeError
      | Some n \<Rightarrow>
          (case next_sibling_b n of
             None \<Rightarrow> Inl AttributeError
           | Some b \<Rightarrow> Inr (strip b)))"

text \<open>
  One turn of the loop of \<^verbatim>\<open>_eplus_html_report_gen\<close>: what it yields for a
  table. Only the search for the section stands inside \<^verbatim>\<open>try\<close>; the title and
  the data frame are computed after it.
\<close>

definition yield_table ::
    "string option \<Rightarrow> 'df html_table \<Rightarrow> error + ((string option \<times> string) \<times> 'df)" where
  "yield_table section t =
     (case prev_sibling_b t of
        None \<Rightarrow> Inl AttributeError
      | Some title \<Rightarrow>
          (case read_html t of
             None \<Rightarrow> Inl PandasError
           | Some df \<Rightarrow> Inr ((section, title), df)))"

definition eplus_html_report_gen1 ::
    "'df html_table \<Rightarrow> error + ((string option \<times> string) \<times> 'df)" where
  "eplus_html_report_gen1 t =
     (case find_section t of
        Inl e \<Rightarrow> (if e = AttributeError then yield_table None t else Inl e)
      | Inr section \<Rightarrow> yield_table (Some section) t)"

text \<open>
  \<^verbatim>\<open>reports\<close> is a \<^verbatim>\<open>Box\<close> with \<^verbatim>\<open>default_box=True\<close>: reading a missing
  key creates an empty \<^verbatim>\<open>Box\<close> under it. Its keys are the titles and the
  sections, \<open>None\<close> being the key \<^verbatim>\<open>None\<close>. A value is a \<^verbatim>\<open>BoxList\<close> of data
  frames or a \<^verbatim>\<open>Box\<close> from titles to data frames; item assignment with a string
  on a \<^verbatim>\<open>BoxList\<close> is a \<^verbatim>\<open>TypeError\<close>.
\<close>

datatype 'df entry = BoxList "'df list" | Box "string \<rightharpoonup> 'df"

type_synonym 'df reports = "string option \<rightharpoonup> 'df entry"

definition report_step ::
    "'df reports \<Rightarrow> (string option \<times> string) \<times> 'df \<Rightarrow> error + 'df reports" where
  "report_step reports y =
     (case y of ((section, title), df) \<Rightarrow>
        if section = None \<and> Some title \<notin> dom reports
        then Inr (reports(Some title \<mapsto> BoxList []))
        else (case reports section of
                None \<Rightarrow> Inr (reports(section \<mapsto> Box [title \<mapsto> df]))
              | Some (Box b) \<Rightarrow> Inr (reports(section \<mapsto> Box (b(title \<mapsto> df))))
              | Some (BoxList l) \<Rightarrow> Inl TypeError))"

fun report_loop :: "'df reports \<Rightarrow> 'df html_table list \<Rightarrow> error + 'df reports" where
  "report_loop reports [] = Inr reports"
| "report_loop reports (t # ts) =
     (case eplus_html_report_gen1 t of
        Inl e \<Rightarrow> Inl e
      | Inr y \<Rightarrow>
          (case report_step reports y of
             Inl e \<Rightarrow> Inl e
           | Inr reports' \<Rightarrow> report_loop reports' ts))"

definition process_eplus_html_report :: "'df html_table list \<Rightarrow> error + 'df reports" where
  "process_eplus_html_report tables = report_loop Map.empty tables"

subsection \<open>utils.py: the CSV time series\<close>

text \<open>
  \<^verbatim>\<open>os.path.splitext\<close> on a base name: the extension starts at the last dot,
  unless only dots stand before it.
\<close>

definition stripext :: "string \<Rightarrow> string" where
  "stripext name =
     (let stem = rev (drop 1 (dropWhile (\<lambda>c. c \<noteq> CHR ''.'') (rev name)))
      in if CHR ''.'' \<in> set name \<and> filter (\<lambda>c. c \<noteq> CHR ''.'') stem \<noteq> [] then stem else name)"

definition derive_name :: "string \<Rightarrow> string" where
  "derive_name base = (if base \<noteq> ''eplus'' then str_replace ''eplus-'' [] base else base)"

text \<open>\<^verbatim>\<open>fnmatch(name, "*.csv")\<close>\<close>

definition is_csv :: "string \<Rightarrow> bool" where
  "is_csv name = is_prefix (rev ''.csv'') (rev name)"

text \<open>
  \<^verbatim>\<open>open(csv_file).read()\<close> decodes the bytes of the file (UTF-8, the
  preferred encoding of a Linux host, errors strict) and translates line ends.
  \<open>utf8_ok\<close> is the table of well-formed UTF-8 byte sequences.
\<close>

definition cont :: "nat \<Rightarrow> bool" where
  "cont b = (128 \<le> b \<and> b \<le> 191)"

fun utf8_ok :: "nat list \<Rightarrow> bool" where
  "utf8_ok [] = True"
| "utf8_ok (b # bs) =
     (if b < 128 then utf8_ok bs
      else if 194 \<le> b \<and> b \<le> 223 then
        (case bs of c1 # r \<Rightarrow> cont c1 \<and> utf8_ok r | _ \<Rightarrow> False)
      else if 224 \<le> b \<and> b \<le> 239 then
        (case bs of
           c1 # c2 # r \<Rightarrow>
             (if b = 224 then 160 \<le> c1 \<and> c1 \<le> 191
              else if b = 237 then 128 \<le> c1 \<and> c1 \<le> 159
              else cont c1) \<and> cont c2 \<and> utf8_ok r
         | _ \<Rightarrow> False)
      else if 240 \<le> b \<and> b \<le> 244 then
        (case bs of
           c1 # c2 # c3 # r \<Rightarrow>
             (if b = 240 then 144 \<le> c1 \<and> c1 \<le> 191
              else if b = 244 then 128 \<le> c1 \<and> c1 \<le> 143
              else cont c1) \<and> cont c2 \<and> cont c3 \<and> utf8_ok r
         | _ \<Rightarrow> False)
      else False)"

fun universal_newlines :: "string \<Rightarrow> string" where
  "universal_newlines [] = []"
| "universal_newlines [c] = (if c = CHR 0x0D then [CHR 0x0A] else [c])"
| "universal_newlines (c # d # cs) =
     (if c = CHR 0x0D \<and> d = CHR 0x0A then CHR 0x0A # universal_newlines cs
      else if c = CHR 0x0D then CHR 0x0A # universal_newlines (d # cs)
      else c # universal_newlines (d # cs))"

definition read_text :: "string \<Rightarrow> error + string" where
  "read_text bytes =
     (if utf8_ok (map of_char bytes) then Inr (universal_newlines bytes)
      else Inl UnicodeDecodeError)"

text \<open>
  A value of the result is a data frame or the raw text of the file. The parser
  \<^verbatim>\<open>pd.read_csv\<close> is a parameter \<open>read_csv\<close>, \<open>None\<close> when it raises. The
  directory is its listing: (base name, node) in the order \<^verbatim>\<open>files\<close> returns.
  The loop keeps the warnings it has emitted, also when it ends in an exception.
\<close>

datatype 'df series = Frame 'df | Raw string

text \<open>\<^verbatim>\<open>os.path.join(dir, name)\<close> for a name that is a directory entry\<close>

definition path_join :: "string \<Rightarrow> string \<Rightarrow> string" where
  "path_join dir name =
     (if dir = [] \<or> last dir = CHR ''/'' then dir @ name else dir @ ''/'' @ name)"

definition warning_text :: "string \<Rightarrow> string \<Rightarrow> string" where
  "warning_text dir name =
     ''Unable to parse csv file '' @ path_join dir name @ ''. Return raw string as fallback.''"

definition csv_files :: "(string \<times> node) list \<Rightarrow> (string \<times> string) list" where
  "csv_files listing =
     concat (map (\<lambda>(name, n). case n of File bytes \<Rightarrow> (if is_csv name then [(name, bytes)] else [])
                                      | Dir \<Rightarrow> []) listing)"

fun series_loop ::
    "(string \<Rightarrow> 'df option) \<Rightarrow> string \<Rightarrow> (string \<times> string) list \<Rightarrow>
     string list \<times> (string \<rightharpoonup> 'df series) \<Rightarrow>
     string list \<times> (error + (string \<rightharpoonup> 'df series))" where
  "series_loop read_csv dir [] (warnings, time_series) = (warnings, Inr time_series)"
| "series_loop read_csv dir ((file, bytes) # rest) (warnings, time_series) =
     (let name = derive_name (stripext file) in
      case read_csv bytes of
        Some df \<Rightarrow> series_loop read_csv dir rest (warnings, time_series(name \<mapsto> Frame df))
      | None \<Rightarrow>
          (case read_text bytes of
             Inl e \<Rightarrow> (warnings @ [warning_text dir file], Inl e)
           | Inr txt \<Rightarrow>
               series_loop read_csv dir rest
                 (warnings @ [warning_text dir file], time_series(name \<mapsto> Raw txt))))"

definition process_eplus_time_series ::
    "(string \<Rightarrow> 'df option) \<Rightarrow> string \<Rightarrow> (string \<times> node) list \<Rightarrow>
     string list \<times> (error + (string \<rightharpoonup> 'df series))" where
  "process_eplus_time_series read_csv dir listing =
     series_loop read_csv dir (csv_files listing) ([], Map.empty)"

subsection \<open>Sample inputs and notions used in the statements\<close>

text \<open>
  The sample inputs are ASCII, so the tables of the sample environment beyond
  ASCII are never asked; they are empty.
\<close>

definition linux_env :: env where
  "linux_env =
     \<lparr>platform_system = ''Linux'',
      unicode = \<lparr>decimal = (\<lambda>_. False), alnum = (\<lambda>_. False)\<rparr>,
      cwd = [''home'', ''user''],
      http_head = (\<lambda>_. Some (Some ''application/octet-stream'')),
      http_get = (\<lambda>_. Some ''#!/bin/sh''),
      tempdir = [''tmp'', ''tmp0''],
      expect_ok = (\<lambda>_. True),
      installer_effect = (\<lambda>_ f. f)\<rparr>"

definition empty_world :: world where
  "empty_world = \<lparr>files = [], trace = []\<rparr>"

definition sample_url :: string where
  "sample_url =
     ''https://github.com/NREL/EnergyPlus/releases/download/v9.4.0/EnergyPlus-9.4.0-998c4b761e-Linux-Ubuntu18.04-x86_64.sh''"

text \<open>A file system in which the installation directory exists and has no entry.\<close>

definition empty_install_world :: world where
  "empty_install_world =
     \<lparr>files = [([''opt''], Dir), ([''opt'', ''eplus''], Dir),
               ([''opt'', ''eplus'', ''EnergyPlus-9-4-0''], Dir)],
      trace = []\<rparr>"

text \<open>What has been exchanged with the spawned child: the waits and the lines sent.\<close>

fun is_dialogue :: "event \<Rightarrow> bool" where
  "is_dialogue (EvExpect _) = True"
| "is_dialogue (EvSendline _) = True"
| "is_dialogue _ = False"

definition child_dialogue :: "event list \<Rightarrow> event list" where
  "child_dialogue tr = filter is_dialogue tr"

text \<open>
  The dialogue as the specification words it: a wait before each of the three
  answers, then the wait for the end of the process.
\<close>

definition alternating_dialogue :: "string \<Rightarrow> event list" where
  "alternating_dialogue eplus_folder =
     [EvExpect CRLF, EvSendline ''y'', EvExpect CRLF, EvSendline eplus_folder,
      EvExpect CRLF, EvSendline ''n'', EvExpect EOF]"

text \<open>
  A \<^verbatim>\<open>content-type\<close> header that names a text or HTML page: it contains
  \<^verbatim>\<open>text\<close> or \<^verbatim>\<open>html\<close>, whatever the case of its letters.
\<close>

definition text_or_html :: "string option \<Rightarrow> bool" where
  "text_or_html header =
     (case header of
        None \<Rightarrow> False
      | Some ct \<Rightarrow> contains ''text'' (lower ct) \<or> contains ''html'' (lower ct))"

text \<open>
  The grammar of an installer URL as the specification words it:
  \<^verbatim>\<open>.../EnergyPlus-<version>-<revision>-<platform>.sh\<close>, the version a semantic
  version string (three runs of digits with a dot between two of them). Nothing
  is asked of the revision and the platform.
\<close>

definition semantic_version :: "string \<Rightarrow> bool" where
  "semantic_version v =
     (\<exists>d1 d2 d3. v = d1 @ ''.'' @ d2 @ ''.'' @ d3
        \<and> d1 \<noteq> [] \<and> set d1 \<subseteq> set ascii_digits
        \<and> d2 \<noteq> [] \<and> set d2 \<subseteq> set ascii_digits
        \<and> d3 \<noteq> [] \<and> set d3 \<subseteq> set ascii_digits)"

definition spec_url_grammar :: "string \<Rightarrow> bool" where
  "spec_url_grammar url =
     (\<exists>pre version revision platform.
        url = pre @ ''EnergyPlus-'' @ version @ ''-'' @ revision @ ''-'' @ platform @ ''.sh''
        \<and> semantic_version version)"

text \<open>A table with a bold title before it and no report marker.\<close>

definition sample_table :: "string \<Rightarrow> string \<Rightarrow> string html_table" where
  "sample_table title df =
     \<lparr>prev_report = None, prev_sibling_b = Some title, read_html = Some df\<rparr>"

text \<open>A table under a report marker whose bold sibling has the given text.\<close>

definition marked_table :: "string \<Rightarrow> string \<Rightarrow> string \<Rightarrow> string html_table" where
  "marked_table section_text title df =
     \<lparr>prev_report = Some (TextNode (Some section_text)), prev_sibling_b = Some title,
      read_html = Some df\<rparr>"

text \<open>A table with no bold sibling before it.\<close>

definition untitled_table :: "string html_table" where
  "untitled_table = \<lparr>prev_report = None, prev_sibling_b = None, read_html = Some ''df''\<rparr>"

text \<open>
  A section text with white space around it: a no-break space and a space in
  front, a file separator and a newline behind.
\<close>

definition padded_section :: string where
  "padded_section = [CHR 0xC2, CHR 0xA0, CHR 0x20] @ ''Annual Summary'' @ [CHR 0x1C, CHR 0x0A]"

definition meter_listing :: "(string \<times> node) list" where
  "meter_listing =
     [(''eplus-meter.csv'', File ''a,b''), (''notes.txt'', File ''x''),
      (''meter.csv'', File ''c,d'')]"

section \<open>Properties\<close>

lemmas io_defs = bindM_def ret_def raise_def emit_def finallyM_def

lemmas fs_defs = mkdir_def path_exists_def rmtree_def write_file_def with_lock_def
  with_tempdir_def resolve_def absolute_def fs_lookup_def fs_put_def remove_tree_def join_def
  components_def expected_folder_def str_replace_def getitem_def generator_truth_def
  glob_star_def

lemmas re_defs = extract_filename_info_def re_match_groupdict_def eplus_filename_pattern_def
  lits_def feed_def utf8_width_def is_ascii_def ascii_digits_def ascii_lower_def
  ascii_upper_def

lemmas html_defs = process_eplus_html_report_def eplus_html_report_gen1_def yield_table_def
  find_section_def report_step_def

subsection \<open>The platform check\<close>

text \<open>
  C9. On a platform other than Linux \<^verbatim>\<open>ensure_eplus_root\<close> raises the
  unsupported-platform \<^verbatim>\<open>ValueError\<close> and the world is as before the call: no
  directory created, no lock taken, no request sent, no process spawned, nothing
  recorded in the trace.
\<close>

theorem ensure_eplus_root_unsupported_platform:
  "platform_system E \<noteq> ''Linux'' \<Longrightarrow>
   ensure_eplus_root E url eplus_folder installer_cache w
     = (Inl (UnsupportedPlatform (platform_system E)), w)"
  by (simp add: ensure_eplus_root_def raise_def)

theorem ensure_eplus_root_unsupported_platform_witness:
  "platform_system (linux_env\<lparr>platform_system := ''Windows''\<rparr>) \<noteq> ''Linux'' \<and>
   ensure_eplus_root (linux_env\<lparr>platform_system := ''Windows''\<rparr>)
       sample_url (Abs [''opt'', ''eplus'']) None empty_world
     = (Inl (UnsupportedPlatform ''Windows''), empty_world)"
  using ensure_eplus_root_unsupported_platform
          [of "linux_env\<lparr>platform_system := ''Windows''\<rparr>" sample_url
              "Abs [''opt'', ''eplus'']" None empty_world]
  by (simp add: linux_env_def)

subsection \<open>The scripted installation\<close>

text \<open>
  C4, as the code has it. When every wait succeeds, \<^verbatim>\<open>_extract_and_install\<close>
  spawns \<^verbatim>\<open>bash <script>\<close>, waits for a line end, sends \<^verbatim>\<open>y\<close> and, without a
  wait in between, the target folder, waits for a line end, sends \<^verbatim>\<open>n\<close>, waits
  for the end of the process and closes the child; it returns normally.
\<close>

theorem extract_and_install_dialogue:
  "(\<forall>h. expect_ok E h) \<Longrightarrow>
   extract_and_install E setup_script eplus_folder w =
     (Inr (),
      w\<lparr>files := installer_effect E
                   (trace w @ [EvSpawn (''bash '' @ setup_script), EvExpect CRLF,
                               EvSendline ''y'', EvSendline eplus_folder, EvExpect CRLF,
                               EvSendline ''n'', EvExpect EOF, EvClose])
                   (files w),
        trace := trace w @ [EvSpawn (''bash '' @ setup_script), EvExpect CRLF,
                            EvSendline ''y'', EvSendline eplus_folder, EvExpect CRLF,
                            EvSendline ''n'', EvExpect EOF, EvClose]\<rparr>)"
  by (simp add: extract_and_install_def expect_def sendline_def io_defs)

theorem extract_and_install_dialogue_witness:
  "(\<forall>h. expect_ok linux_env h) \<and>
   extract_and_install linux_env ''/tmp/tmp0/setup.sh'' ''/opt/eplus'' empty_world =
     (Inr (),
      \<lparr>files = [],
       trace = [EvSpawn ''bash /tmp/tmp0/setup.sh'', EvExpect CRLF,
                EvSendline ''y'', EvSendline ''/opt/eplus'', EvExpect CRLF,
                EvSendline ''n'', EvExpect EOF, EvClose]\<rparr>)"
proof -
  have h: "\<forall>h. expect_ok linux_env h"
    by (simp add: linux_env_def)
  show ?thesis
    using h extract_and_install_dialogue
              [OF h, of "''/tmp/tmp0/setup.sh''" "''/opt/eplus''" empty_world]
    by (simp add: linux_env_def empty_world_def)
qed

text \<open>
  The dialogue of the code is not the alternating one: no wait stands between
  the licence answer and the folder.
\<close>

theorem extract_and_install_not_alternating:
  "child_dialogue
     (trace (snd (extract_and_install linux_env ''/tmp/tmp0/setup.sh'' ''/opt/eplus''
                    empty_world)))
   \<noteq> alternating_dialogue ''/opt/eplus''"
  by (simp add: extract_and_install_def expect_def sendline_def io_defs linux_env_def
      empty_world_def child_dialogue_def alternating_dialogue_def)

subsection \<open>The download check\<close>

lemma is_downloadable_cases:
  "is_downloadable E url w =
     (case http_head E url of
        None \<Rightarrow> (Inl RequestException, w\<lparr>trace := trace w @ [EvHead url]\<rparr>)
      | Some h \<Rightarrow> (Inr (h \<noteq> None \<and> \<not> text_or_html h), w\<lparr>trace := trace w @ [EvHead url]\<rparr>))"
  by (simp add: is_downloadable_def text_or_html_def io_defs split: option.splits)

text \<open>
  C8, as the code has it. \<^verbatim>\<open>_download_eplus_version\<close> raises the
  not-downloadable \<^verbatim>\<open>ValueError\<close> exactly when the HEAD request is answered
  and the answer has no \<^verbatim>\<open>content-type\<close> header or one that contains
  \<^verbatim>\<open>text\<close> or \<^verbatim>\<open>html\<close>. With any other header the check passes and the GET
  request follows; its content is written to the path.
\<close>

theorem download_not_downloadable_iff:
  "(fst (download_eplus_version E url path w) = Inl NotDownloadable
      \<longleftrightarrow> (\<exists>h. http_head E url = Some h \<and> (h = None \<or> text_or_html h)))
   \<and> (\<forall>ct. http_head E url = Some (Some ct) \<and> \<not> text_or_html (Some ct) \<longrightarrow>
         download_eplus_version E url path w =
           (case http_get E url of
              None \<Rightarrow> (Inl RequestException, w\<lparr>trace := trace w @ [EvHead url, EvGet url]\<rparr>)
            | Some content \<Rightarrow>
                write_file E path content (w\<lparr>trace := trace w @ [EvHead url, EvGet url]\<rparr>)))"
  by (auto simp add: download_eplus_version_def is_downloadable_cases io_defs write_file_def
      NotDownloadable_def split: option.splits prod.splits sum.splits if_splits)

theorem download_not_downloadable_iff_witness:
  "http_head linux_env sample_url = Some (Some ''application/octet-stream'')
   \<and> \<not> text_or_html (Some ''application/octet-stream'')
   \<and> download_eplus_version linux_env sample_url (Abs [''tmp'', ''setup.sh''])
        \<lparr>files = [([''tmp''], Dir)], trace = []\<rparr>
     = (Inr (), \<lparr>files = [([''tmp'', ''setup.sh''], File ''#!/bin/sh''), ([''tmp''], Dir)],
                 trace = [EvHead sample_url, EvGet sample_url, EvWrite [''tmp'', ''setup.sh'']]\<rparr>)
   \<and> text_or_html (Some ''Text/HTML; charset=UTF-8'')
   \<and> fst (download_eplus_version
             (linux_env\<lparr>http_head := (\<lambda>_. Some (Some ''Text/HTML; charset=UTF-8''))\<rparr>)
             sample_url (Abs [''tmp'', ''setup.sh'']) empty_world) = Inl NotDownloadable"
proof -
  have a: "http_head linux_env sample_url = Some (Some ''application/octet-stream'')"
    by (simp add: linux_env_def)
  have b: "\<not> text_or_html (Some ''application/octet-stream'')"
    by (simp add: text_or_html_def lower_def lower_char_def ascii_upper_def ascii_lower_def)
  have c: "text_or_html (Some ''Text/HTML; charset=UTF-8'')"
    by (simp add: text_or_html_def lower_def lower_char_def ascii_upper_def ascii_lower_def)
  have d: "http_head (linux_env\<lparr>http_head := (\<lambda>_. Some (Some ''Text/HTML; charset=UTF-8''))\<rparr>)
             sample_url = Some (Some ''Text/HTML; charset=UTF-8'')"
    by simp
  have "download_eplus_version linux_env sample_url (Abs [''tmp'', ''setup.sh''])
          \<lparr>files = [([''tmp''], Dir)], trace = []\<rparr>
        = (Inr (), \<lparr>files = [([''tmp'', ''setup.sh''], File ''#!/bin/sh''), ([''tmp''], Dir)],
                    trace = [EvHead sample_url, EvGet sample_url,
                             EvWrite [''tmp'', ''setup.sh'']]\<rparr>)"
    using a b download_not_downloadable_iff
                [of linux_env sample_url "Abs [''tmp'', ''setup.sh'']"
                    "\<lparr>files = [([''tmp''], Dir)], trace = []\<rparr>"]
    by (simp add: linux_env_def write_file_def io_defs resolve_def fs_lookup_def fs_put_def)
  moreover have "fst (download_eplus_version
             (linux_env\<lparr>http_head := (\<lambda>_. Some (Some ''Text/HTML; charset=UTF-8''))\<rparr>)
             sample_url (Abs [''tmp'', ''setup.sh'']) empty_world) = Inl NotDownloadable"
    using c d download_not_downloadable_iff
                [of "linux_env\<lparr>http_head := (\<lambda>_. Some (Some ''Text/HTML; charset=UTF-8''))\<rparr>"
                    sample_url "Abs [''tmp'', ''setup.sh'']" empty_world]
    by blast
  ultimately show ?thesis using a b c by blast
qed

text \<open>
  An answer without a \<^verbatim>\<open>content-type\<close> header names neither a text nor an HTML
  page, and the download is refused all the same.
\<close>

theorem download_refused_without_header:
  "http_head (linux_env\<lparr>http_head := (\<lambda>_. Some None)\<rparr>) sample_url = Some None
   \<and> \<not> text_or_html None
   \<and> fst (download_eplus_version (linux_env\<lparr>http_head := (\<lambda>_. Some None)\<rparr>) sample_url
            (Abs [''tmp'', ''setup.sh'']) empty_world) = Inl NotDownloadable"
  by (simp add: download_eplus_version_def is_downloadable_def io_defs text_or_html_def
      linux_env_def empty_world_def)

subsection \<open>The file name pattern\<close>

text \<open>
  The sample URL, ending in
  \<^verbatim>\<open>EnergyPlus-9.4.0-998c4b761e-Linux-Ubuntu18.04-x86_64.sh\<close>, has the version
  \<^verbatim>\<open>9.4.0\<close>, and a page that is no installer is refused, whatever the Unicode
  tables.
\<close>

lemma sample_url_info:
  "extract_filename_info U sample_url
     = Inr [''filename'' \<mapsto> ''EnergyPlus-9.4.0-998c4b761e-Linux-Ubuntu18.04-x86_64.sh'',
            ''version'' \<mapsto> ''9.4.0'', ''revision'' \<mapsto> ''998c4b761e'',
            ''platform'' \<mapsto> ''Linux-Ubuntu18.04-x86_64'']"
  by (simp add: sample_url_def re_defs fun_upd_twist)

lemma downloads_page_info:
  "extract_filename_info U ''https://energyplus.net/downloads'' = Inl PatternMismatch"
  by (simp add: re_defs)

text \<open>
  Beyond ASCII the tables decide: with \<^verbatim>\<open>U+00E9\<close> alphanumeric, as it is in
  the Unicode database, a revision holding it is matched as one code point.
\<close>

lemma non_ascii_revision_info:
  assumes "alnum U [CHR 0xC3, CHR 0xA9]"
  shows "extract_filename_info U (''EnergyPlus-9.4.0-r'' @ [CHR 0xC3, CHR 0xA9] @ ''v-Linux.sh'')
     = Inr [''filename'' \<mapsto> ''EnergyPlus-9.4.0-r'' @ [CHR 0xC3, CHR 0xA9] @ ''v-Linux.sh'',
            ''version'' \<mapsto> ''9.4.0'',
            ''revision'' \<mapsto> ''r'' @ [CHR 0xC3, CHR 0xA9] @ ''v'',
            ''platform'' \<mapsto> ''Linux'']"
  using assms by (simp add: re_defs fun_upd_twist)

lemma ends_in_dot_sh:
  assumes "spec_url_grammar url"
  shows "\<exists>xs. rev url = ''hs.'' @ xs"
proof -
  from assms obtain pre version revision platform where
    "url = pre @ ''EnergyPlus-'' @ version @ ''-'' @ revision @ ''-'' @ platform @ ''.sh''"
    unfolding spec_url_grammar_def by blast
  then have "rev url
      = ''hs.'' @ rev (pre @ ''EnergyPlus-'' @ version @ ''-'' @ revision @ ''-'' @ platform)"
    by simp
  then show ?thesis by blast
qed

text \<open>
  C7, evaluated where the code leaves it. The URL
  \<^verbatim>\<open>EnergyPlus-9a4b0-rev-LinuxXsh\<close> is not of the grammar: its version has no
  dots and it does not end in \<^verbatim>\<open>.sh\<close>. \<^verbatim>\<open>_extract_filename_info\<close> does
  not raise on it: the unescaped dots of the pattern take the letters, and a
  mapping with the version \<^verbatim>\<open>9a4b0\<close> and the platform \<^verbatim>\<open>Linux\<close> is returned.
\<close>

theorem extract_filename_info_unescaped_dots:
  "\<not> spec_url_grammar ''EnergyPlus-9a4b0-rev-LinuxXsh''
   \<and> extract_filename_info U ''EnergyPlus-9a4b0-rev-LinuxXsh''
     = Inr [''filename'' \<mapsto> ''EnergyPlus-9a4b0-rev-LinuxXsh'', ''version'' \<mapsto> ''9a4b0'',
            ''revision'' \<mapsto> ''rev'', ''platform'' \<mapsto> ''Linux'']"
proof
  show "\<not> spec_url_grammar ''EnergyPlus-9a4b0-rev-LinuxXsh''"
  proof
    assume "spec_url_grammar ''EnergyPlus-9a4b0-rev-LinuxXsh''"
    from ends_in_dot_sh[OF this] show False by simp
  qed
next
  show "extract_filename_info U ''EnergyPlus-9a4b0-rev-LinuxXsh''
     = Inr [''filename'' \<mapsto> ''EnergyPlus-9a4b0-rev-LinuxXsh'', ''version'' \<mapsto> ''9a4b0'',
            ''revision'' \<mapsto> ''rev'', ''platform'' \<mapsto> ''Linux'']"
    by (simp add: re_defs fun_upd_twist)
qed

subsection \<open>The installation directory\<close>

text \<open>
  What the code does when the installation directory exists: on Linux, with a
  matching URL, the target folder in place and its lock file there from an earlier
  call, the existence of the directory alone ends the call. The absolute path is
  returned; the file system is unchanged; nothing is removed, requested or spawned.
  What the directory holds is never read.
\<close>

lemma ensure_eplus_root_existing:
  assumes "platform_system E = ''Linux''"
    and "extract_filename_info (unicode E) url = Inr finfo"
    and "finfo ''filename'' = Some filename" and "finfo ''version'' = Some version"
    and "mkdirs [] (resolve E eplus_folder) (files w) = Some (files w)"
    and "fs_lookup (files w) (resolve E (join eplus_folder ''.lock'')) = Some (File c)"
    and "fs_lookup (files w) (resolve E (expected_folder eplus_folder version)) \<noteq> None"
  shows "ensure_eplus_root E url eplus_folder installer_cache w =
           (Inr (absolute E (expected_folder eplus_folder version)),
            w\<lparr>trace := trace w @
                 [EvMkdir (resolve E eplus_folder),
                  EvLockAcquire (resolve E (join eplus_folder ''.lock'')),
                  EvExists (resolve E (expected_folder eplus_folder version)),
                  EvLockRelease (resolve E (join eplus_folder ''.lock''))]\<rparr>)"
proof -
  from assms(3,4) have g: "getitem finfo ''filename'' = ret filename"
    "getitem finfo ''version'' = ret version"
    by (auto simp: getitem_def)
  show ?thesis
    using assms(1,2,5,6,7)
    by (simp add: ensure_eplus_root_def g mkdir_def with_lock_def path_exists_def
        generator_truth_def io_defs)
qed

text \<open>
  C1, evaluated where the code leaves it. The installation directory
  \<^verbatim>\<open>/opt/eplus/EnergyPlus-9-4-0\<close> exists and is empty (its listing has no entry);
  the platform is Linux and the URL matches. \<^verbatim>\<open>ensure_eplus_root\<close> returns the
  path of the empty directory: after the lock it only tests that the path exists,
  the directory is not removed, nothing is downloaded and no installer runs.
\<close>

theorem ensure_eplus_root_empty_directory:
  "glob_star (files empty_install_world) [''opt'', ''eplus'', ''EnergyPlus-9-4-0''] = []
   \<and> ensure_eplus_root linux_env sample_url (Abs [''opt'', ''eplus'']) None empty_install_world
     = (Inr (Abs [''opt'', ''eplus'', ''EnergyPlus-9-4-0'']),
        \<lparr>files = ([''opt'', ''eplus'', ''.lock''], File []) # files empty_install_world,
         trace = [EvMkdir [''opt'', ''eplus''], EvLockAcquire [''opt'', ''eplus'', ''.lock''],
                  EvExists [''opt'', ''eplus'', ''EnergyPlus-9-4-0''],
                  EvLockRelease [''opt'', ''eplus'', ''.lock'']]\<rparr>)"
  by (simp add: ensure_eplus_root_def sample_url_info io_defs fs_defs linux_env_def
      empty_install_world_def)

text \<open>
  For comparison, the same call where the installation directory is missing: the
  installer is downloaded into the temporary directory and run.
\<close>

lemma ensure_eplus_root_missing_directory:
  "ensure_eplus_root linux_env sample_url (Abs [''opt'', ''eplus'']) None
     \<lparr>files = [([''opt''], Dir), ([''opt'', ''eplus''], Dir), ([''tmp''], Dir)], trace = []\<rparr>
   = (Inr (Abs [''opt'', ''eplus'', ''EnergyPlus-9-4-0'']),
      \<lparr>files = [([''opt'', ''eplus'', ''.lock''], File []), ([''opt''], Dir),
                ([''opt'', ''eplus''], Dir), ([''tmp''], Dir)],
       trace = [EvMkdir [''opt'', ''eplus''], EvLockAcquire [''opt'', ''eplus'', ''.lock''],
                EvExists [''opt'', ''eplus'', ''EnergyPlus-9-4-0''],
                EvRmtree [''opt'', ''eplus'', ''EnergyPlus-9-4-0''],
                EvMkdtemp [''tmp'', ''tmp0''],
                EvExists [''tmp'', ''tmp0'',
                          ''EnergyPlus-9.4.0-998c4b761e-Linux-Ubuntu18.04-x86_64.sh''],
                EvHead sample_url, EvGet sample_url,
                EvWrite [''tmp'', ''tmp0'',
                         ''EnergyPlus-9.4.0-998c4b761e-Linux-Ubuntu18.04-x86_64.sh''],
                EvSpawn ''bash /tmp/tmp0/EnergyPlus-9.4.0-998c4b761e-Linux-Ubuntu18.04-x86_64.sh'',
                EvExpect CRLF, EvSendline ''y'', EvSendline ''/opt/eplus'', EvExpect CRLF,
                EvSendline ''n'', EvExpect EOF, EvClose,
                EvCleanup [''tmp'', ''tmp0''],
                EvLockRelease [''opt'', ''eplus'', ''.lock'']]\<rparr>)"
  by (simp add: ensure_eplus_root_def sample_url_info io_defs fs_defs linux_env_def
      url_to_installed_def download_eplus_version_def is_downloadable_def
      extract_and_install_def expect_def sendline_def lower_def lower_char_def
      ascii_upper_def ascii_lower_def)

subsection \<open>The HTML report\<close>

text \<open>
  No run of the loop ever puts a table into a top-level sequence: every
  \<^verbatim>\<open>BoxList\<close> of the result is empty.
\<close>

lemma report_step_boxlist_empty:
  "report_step r y = Inr r' \<Longrightarrow> (\<forall>k l. r k = Some (BoxList l) \<longrightarrow> l = []) \<Longrightarrow> r' k = Some (BoxList l) \<Longrightarrow> l = []"
  by (auto simp add: report_step_def split: prod.splits if_splits option.splits entry.splits)

lemma report_loop_boxlist_empty:
  "report_loop r ts = Inr r' \<Longrightarrow> (\<forall>k l. r k = Some (BoxList l) \<longrightarrow> l = []) \<Longrightarrow> r' k = Some (BoxList l) \<Longrightarrow> l = []"
proof (induction ts arbitrary: r)
  case Nil
  then show ?case by simp
next
  case (Cons t ts)
  from Cons.prems(1) obtain y r1 where y: "eplus_html_report_gen1 t = Inr y"
    and s: "report_step r y = Inr r1" and l: "report_loop r1 ts = Inr r'"
    by (auto split: sum.splits)
  have "\<forall>k l. r1 k = Some (BoxList l) \<longrightarrow> l = []"
    using report_step_boxlist_empty[OF s Cons.prems(2)] by blast
  from Cons.IH[OF l this Cons.prems(3)] show ?case .
qed


lemma process_eplus_html_report_boxlist_empty:
  "process_eplus_html_report tables = Inr r \<Longrightarrow> r k = Some (BoxList l) \<Longrightarrow> l = []"
  unfolding process_eplus_html_report_def
  by (erule report_loop_boxlist_empty) simp_all

text \<open>
  C2, evaluated where the code leaves it. Three tables without a section carry
  the same title. The first creates the empty sequence under the title and is
  dropped; the second and the third are assigned to the title inside the box
  under the key \<^verbatim>\<open>None\<close>, the third over the second. The sequence under the
  title receives none of them.
\<close>

theorem html_report_repeated_title:
  "process_eplus_html_report
     [sample_table ''Zone Summary'' ''df1'', sample_table ''Zone Summary'' ''df2'',
      sample_table ''Zone Summary'' ''df3'']
   = Inr [Some ''Zone Summary'' \<mapsto> BoxList [], None \<mapsto> Box [''Zone Summary'' \<mapsto> ''df3'']]"
  by (simp add: html_defs sample_table_def)

text \<open>
  What a table yields, and how the loop goes on after a prefix of the tables.
\<close>

lemma gen1_Inr:
  "prev_sibling_b t = Some title \<Longrightarrow> read_html t = Some df \<Longrightarrow>
   eplus_html_report_gen1 t
     = Inr ((case find_section t of Inl e \<Rightarrow> None | Inr s \<Rightarrow> Some s, title), df)"
  by (auto simp: eplus_html_report_gen1_def yield_table_def find_section_def
      split: option.splits sum.splits)

lemma gen1_no_title:
  "prev_sibling_b t = None \<Longrightarrow> eplus_html_report_gen1 t = Inl AttributeError"
  by (auto simp: eplus_html_report_gen1_def yield_table_def find_section_def
      split: option.splits sum.splits)

lemma find_section_cases:
  "find_section t = Inl AttributeError \<or> (\<exists>s. find_section t = Inr s)"
  by (auto simp: find_section_def split: option.splits)

lemma report_loop_append:
  "report_loop r (xs @ ys)
     = (case report_loop r xs of Inl e \<Rightarrow> Inl e | Inr r' \<Rightarrow> report_loop r' ys)"
  by (induction xs arbitrary: r) (auto split: sum.splits)

lemma report_loop_no_collision:
  assumes A: "\<forall>t \<in> set ts. prev_sibling_b t \<noteq> None \<and> read_html t \<noteq> None"
    and B: "\<forall>t \<in> set ts. \<forall>t' \<in> set ts. \<forall>s.
              find_section t = Inl AttributeError \<and> find_section t' = Inr s
                \<longrightarrow> prev_sibling_b t \<noteq> Some s"
  shows "set us \<subseteq> set ts \<Longrightarrow>
         (\<forall>k l. r k = Some (BoxList l) \<longrightarrow>
            (\<exists>t \<in> set ts. find_section t = Inl AttributeError \<and> prev_sibling_b t = k)) \<Longrightarrow>
         \<exists>r'. report_loop r us = Inr r'"
proof (induction us arbitrary: r)
  case Nil
  then show ?case by simp
next
  case (Cons t us)
  from Cons.prems(1) have tin: "t \<in> set ts" and sub: "set us \<subseteq> set ts" by auto
  from A tin obtain title df where ti: "prev_sibling_b t = Some title" and df: "read_html t = Some df"
    by auto
  define sec where "sec = (case find_section t of Inl e \<Rightarrow> None | Inr s \<Rightarrow> Some s)"
  have g: "eplus_html_report_gen1 t = Inr ((sec, title), df)"
    unfolding sec_def by (rule gen1_Inr[OF ti df])
  have nolist: "r sec \<noteq> Some (BoxList l)" for l
  proof
    assume "r sec = Some (BoxList l)"
    with Cons.prems(2) obtain t0 where t0: "t0 \<in> set ts" "find_section t0 = Inl AttributeError"
      "prev_sibling_b t0 = sec" by blast
    show False
    proof (cases "find_section t")
      case (Inl e)
      then have "sec = None" by (simp add: sec_def)
      with t0 A show False by auto
    next
      case (Inr s)
      then have "sec = Some s" by (simp add: sec_def)
      with t0 B tin Inr show False by blast
    qed
  qed
  have "\<exists>r1. report_step r ((sec, title), df) = Inr r1
          \<and> (\<forall>k l. r1 k = Some (BoxList l) \<longrightarrow>
                (\<exists>t \<in> set ts. find_section t = Inl AttributeError \<and> prev_sibling_b t = k))"
  proof (cases "sec = None \<and> Some title \<notin> dom r")
    case True
    then have "find_section t = Inl AttributeError"
      using find_section_cases[of t] by (auto simp: sec_def)
    with tin ti have "\<exists>t \<in> set ts. find_section t = Inl AttributeError \<and> prev_sibling_b t = Some title"
      by blast
    with True Cons.prems(2) show ?thesis
      by (auto simp: report_step_def)
  next
    case False
    show ?thesis
    proof (cases "r sec")
      case None
      with False Cons.prems(2) show ?thesis
        by (auto simp: report_step_def)
    next
      case (Some e)
      with nolist obtain b where "e = Box b" by (cases e) auto
      with Some False Cons.prems(2) show ?thesis
        by (auto simp: report_step_def)
    qed
  qed
  then obtain r1 where s1: "report_step r ((sec, title), df) = Inr r1"
    and i1: "\<forall>k l. r1 k = Some (BoxList l) \<longrightarrow>
                (\<exists>t \<in> set ts. find_section t = Inl AttributeError \<and> prev_sibling_b t = k)"
    by blast
  from Cons.IH[OF sub i1] obtain r' where "report_loop r1 us = Inr r'" by blast
  with g s1 show ?case by simp
qed

text \<open>
  C6, as the code has it. A table with a bold title before it and a body pandas
  reads is yielded whatever the section search finds: with section
  \<^verbatim>\<open>None\<close> when there is no report marker before it or the marker has no
  following \<^verbatim>\<open>b\<close> sibling, with the stripped text of that sibling otherwise.
  A report in which every table has such a title and body, and in which no
  section is the title of a table without section, is processed without an
  exception. A table with no \<^verbatim>\<open>b\<close> sibling before it is not tolerated: the
  title is looked up outside the \<^verbatim>\<open>try\<close>, and where the tables before it have
  been processed \<^verbatim>\<open>process_eplus_html_report\<close> raises \<^verbatim>\<open>AttributeError\<close>.
  A table whose section is a key that holds a sequence, the title of an earlier
  table without section, raises \<^verbatim>\<open>TypeError\<close>.
\<close>

theorem html_report_missing_markers:
  "(prev_sibling_b t = Some title \<and> read_html t = Some df \<longrightarrow>
      (\<exists>section. eplus_html_report_gen1 t = Inr ((section, title), df)
         \<and> ((prev_report t = None \<or> (\<exists>n. prev_report t = Some n \<and> next_sibling_b n = None))
               \<longrightarrow> section = None)
         \<and> (\<forall>n b. prev_report t = Some n \<and> next_sibling_b n = Some b
               \<longrightarrow> section = Some (strip b))))
   \<and> ((\<forall>t \<in> set ts. prev_sibling_b t \<noteq> None \<and> read_html t \<noteq> None)
        \<and> (\<forall>t \<in> set ts. \<forall>t' \<in> set ts. \<forall>s.
              find_section t = Inl AttributeError \<and> find_section t' = Inr s
                \<longrightarrow> prev_sibling_b t \<noteq> Some s)
       \<longrightarrow> (\<exists>r. process_eplus_html_report ts = Inr r))
   \<and> (process_eplus_html_report pre = Inr r0 \<and> prev_sibling_b u = None
       \<longrightarrow> process_eplus_html_report (pre @ u # post) = Inl AttributeError)
   \<and> (process_eplus_html_report pre = Inr r0 \<and> prev_sibling_b u \<noteq> None
        \<and> read_html u \<noteq> None \<and> find_section u = Inr s \<and> r0 (Some s) = Some (BoxList l)
       \<longrightarrow> process_eplus_html_report (pre @ u # post) = Inl TypeError)"
proof (intro conjI)
  show "prev_sibling_b t = Some title \<and> read_html t = Some df \<longrightarrow>
      (\<exists>section. eplus_html_report_gen1 t = Inr ((section, title), df)
         \<and> ((prev_report t = None \<or> (\<exists>n. prev_report t = Some n \<and> next_sibling_b n = None))
               \<longrightarrow> section = None)
         \<and> (\<forall>n b. prev_report t = Some n \<and> next_sibling_b n = Some b
               \<longrightarrow> section = Some (strip b)))"
    by (auto simp add: eplus_html_report_gen1_def yield_table_def find_section_def
        split: option.splits sum.splits)
next
  show "(\<forall>t \<in> set ts. prev_sibling_b t \<noteq> None \<and> read_html t \<noteq> None)
        \<and> (\<forall>t \<in> set ts. \<forall>t' \<in> set ts. \<forall>s.
              find_section t = Inl AttributeError \<and> find_section t' = Inr s
                \<longrightarrow> prev_sibling_b t \<noteq> Some s)
       \<longrightarrow> (\<exists>r. process_eplus_html_report ts = Inr r)"
  proof
    assume h: "(\<forall>t \<in> set ts. prev_sibling_b t \<noteq> None \<and> read_html t \<noteq> None)
        \<and> (\<forall>t \<in> set ts. \<forall>t' \<in> set ts. \<forall>s.
              find_section t = Inl AttributeError \<and> find_section t' = Inr s
                \<longrightarrow> prev_sibling_b t \<noteq> Some s)"
    have "\<exists>r'. report_loop Map.empty ts = Inr r'"
      by (rule report_loop_no_collision[of ts ts]) (use h in simp_all)
    then show "\<exists>r. process_eplus_html_report ts = Inr r"
      by (simp add: process_eplus_html_report_def)
  qed
next
  show "process_eplus_html_report pre = Inr r0 \<and> prev_sibling_b u = None
       \<longrightarrow> process_eplus_html_report (pre @ u # post) = Inl AttributeError"
    by (simp add: process_eplus_html_report_def report_loop_append gen1_no_title)
next
  show "process_eplus_html_report pre = Inr r0 \<and> prev_sibling_b u \<noteq> None
        \<and> read_html u \<noteq> None \<and> find_section u = Inr s \<and> r0 (Some s) = Some (BoxList l)
       \<longrightarrow> process_eplus_html_report (pre @ u # post) = Inl TypeError"
  proof
    assume h: "process_eplus_html_report pre = Inr r0 \<and> prev_sibling_b u \<noteq> None
        \<and> read_html u \<noteq> None \<and> find_section u = Inr s \<and> r0 (Some s) = Some (BoxList l)"
    then obtain title df where "prev_sibling_b u = Some title" "read_html u = Some df"
      by auto
    from gen1_Inr[OF this] h
    have "eplus_html_report_gen1 u = Inr ((Some s, title), df)" by simp
    moreover from h have "report_step r0 ((Some s, title), df) = Inl TypeError"
      by (simp add: report_step_def)
    ultimately show "process_eplus_html_report (pre @ u # post) = Inl TypeError"
      using h by (simp add: process_eplus_html_report_def report_loop_append)
  qed
qed

lemma padded_section_strip: "strip padded_section = ''Annual Summary''"
  by (simp add: padded_section_def strip_def is_space_def whitespace_def utf8_width_def)

lemma find_section_sample: "find_section (sample_table title df) = Inl AttributeError"
  by (simp add: find_section_def sample_table_def)

lemma find_section_marked: "find_section (marked_table b title df) = Inr (strip b)"
  by (simp add: find_section_def marked_table_def)

theorem html_report_missing_markers_witness:
  "eplus_html_report_gen1
      \<lparr>prev_report = Some (TextNode None), prev_sibling_b = Some ''Building Area'',
       read_html = Some ''df''\<rparr> = Inr ((None, ''Building Area''), ''df'')
   \<and> eplus_html_report_gen1 (marked_table padded_section ''Site Energy'' ''df'')
       = Inr ((Some ''Annual Summary'', ''Site Energy''), ''df'')
   \<and> (\<exists>r. process_eplus_html_report
              [sample_table ''Building Area'' ''df1'',
               marked_table padded_section ''Site Energy'' ''df2''] = Inr r)
   \<and> process_eplus_html_report ([sample_table ''Building Area'' ''df1''] @ untitled_table # [])
       = Inl AttributeError
   \<and> process_eplus_html_report
        ([sample_table ''Building Area'' ''df1'']
         @ marked_table ''Building Area'' ''Site Energy'' ''df2'' # [])
       = Inl TypeError"
proof -
  let ?t1 = "\<lparr>prev_report = Some (TextNode None), prev_sibling_b = Some ''Building Area'',
       read_html = Some ''df''\<rparr> :: string html_table"
  let ?t2 = "marked_table padded_section ''Site Energy'' ''df''"
  let ?ts = "[sample_table ''Building Area'' ''df1'',
               marked_table padded_section ''Site Energy'' ''df2'']"
  let ?pre = "[sample_table ''Building Area'' ''df1'']"
  let ?r0 = "[Some ''Building Area'' \<mapsto> BoxList []] :: string reports"
  let ?u = "marked_table ''Building Area'' ''Site Energy'' ''df2''"
  note T1 = html_report_missing_markers
              [of ?t1 "''Building Area''" "''df''" "[]" "[]" Map.empty untitled_table "[]"
                  "[]" "[]"]
  note T2 = html_report_missing_markers
              [of ?t2 "''Site Energy''" "''df''" ?ts ?pre ?r0 untitled_table "[]" "[]" "[]"]
  note T3 = html_report_missing_markers
              [of ?t2 "''Site Energy''" "''df''" ?ts ?pre ?r0 ?u "[]" "''Building Area''" "[]"]
  have a1: "prev_sibling_b ?t1 = Some ''Building Area'' \<and> read_html ?t1 = Some ''df''" by simp
  have b1: "prev_report ?t1 = Some (TextNode None) \<and> next_sibling_b (TextNode None) = None"
    by simp
  from T1 a1 b1 have 1: "eplus_html_report_gen1 ?t1 = Inr ((None, ''Building Area''), ''df'')"
    by blast
  have a2: "prev_sibling_b ?t2 = Some ''Site Energy'' \<and> read_html ?t2 = Some ''df''"
    by (simp add: marked_table_def)
  have b2: "prev_report ?t2 = Some (TextNode (Some padded_section))
      \<and> next_sibling_b (TextNode (Some padded_section)) = Some padded_section"
    by (simp add: marked_table_def)
  from T2 a2 b2 have "eplus_html_report_gen1 ?t2
      = Inr ((Some (strip padded_section), ''Site Energy''), ''df'')"
    by blast
  then have 2: "eplus_html_report_gen1 ?t2 = Inr ((Some ''Annual Summary'', ''Site Energy''), ''df'')"
    by (simp only: padded_section_strip)
  have c: "\<forall>t \<in> set ?ts. prev_sibling_b t \<noteq> None \<and> read_html t \<noteq> None"
    by (simp add: sample_table_def marked_table_def)
  have d: "\<forall>t \<in> set ?ts. \<forall>t' \<in> set ?ts. \<forall>s.
              find_section t = Inl AttributeError \<and> find_section t' = Inr s
                \<longrightarrow> prev_sibling_b t \<noteq> Some s"
    by (simp add: find_section_sample find_section_marked padded_section_strip)
       (simp add: sample_table_def)
  from T2 c d have 3: "\<exists>r. process_eplus_html_report ?ts = Inr r" by blast
  have e: "process_eplus_html_report ?pre = Inr [Some ''Building Area'' \<mapsto> BoxList []]"
    by (simp add: html_defs sample_table_def)
  have f: "prev_sibling_b untitled_table = None" by (simp add: untitled_table_def)
  from T2 e f have 4: "process_eplus_html_report (?pre @ untitled_table # []) = Inl AttributeError"
    by blast
  have g1: "find_section ?u = Inr ''Building Area''"
    by (simp add: find_section_marked strip_def is_space_def whitespace_def utf8_width_def)
  have g2: "prev_sibling_b ?u \<noteq> None \<and> read_html ?u \<noteq> None"
    by (simp add: marked_table_def)
  have g3: "?r0 (Some ''Building Area'') = Some (BoxList [])" by simp
  from T3 e g1 g2 g3 have 5: "process_eplus_html_report (?pre @ ?u # []) = Inl TypeError"
    by blast
  from 1 2 3 4 5 show ?thesis by blast
qed

text \<open>
  A report whose only table has no bold title before it is not parsed. Nor is a
  report in which a table without section is followed by a table whose section is
  the title of the first: the title holds a \<^verbatim>\<open>BoxList\<close>, and the item
  assignment on it raises \<^verbatim>\<open>TypeError\<close>.
\<close>

theorem html_report_raises_on_title_and_collision:
  "process_eplus_html_report [untitled_table] = Inl AttributeError
   \<and> process_eplus_html_report
        [sample_table ''Zone Summary'' ''df1'', marked_table ''Zone Summary'' ''Loads'' ''df2'']
       = Inl TypeError"
  by (simp add: html_defs sample_table_def marked_table_def untitled_table_def strip_def
      is_space_def whitespace_def utf8_width_def)

subsection \<open>The CSV time series\<close>

lemma is_prefix_take: "is_prefix p s \<longleftrightarrow> take (length p) s = p"
  by (induction p s rule: is_prefix.induct) auto

lemma replace_nonempty_absent:
  "\<not> contains old s \<Longrightarrow> replace_nonempty old new s = s"
  by (induction s) auto

lemma replace_nonempty_first:
  assumes "old \<noteq> []" and "\<not> contains old (a @ butlast old)"
  shows "replace_nonempty old new (a @ old @ b) = a @ new @ replace_nonempty old new b"
  using assms
proof (induction a)
  case Nil
  then obtain c cs where o: "old = c # cs" by (cases old) auto
  have "is_prefix old (old @ b)" by (simp add: is_prefix_take)
  then show ?case using o by (simp del: is_prefix.simps)
next
  case (Cons x a)
  have n: "\<not> is_prefix old (x # a @ butlast old)" and c: "\<not> contains old (a @ butlast old)"
    using Cons.prems(2) by auto
  have "length old \<le> length (x # a @ butlast old)" using Cons.prems(1) by (cases old) auto
  moreover have "(butlast old @ [last old]) @ b = butlast old @ (last old # b)" by simp
  then have "old @ b = butlast old @ (last old # b)" using Cons.prems(1) by simp
  then have "x # a @ old @ b = (x # a @ butlast old) @ (last old # b)" by simp
  ultimately have "take (length old) (x # a @ old @ b) = take (length old) (x # a @ butlast old)"
    by (simp only: take_append) simp
  with n have "\<not> is_prefix old (x # a @ old @ b)" by (simp add: is_prefix_take del: is_prefix.simps)
  then show ?case using Cons.IH[OF Cons.prems(1) c] by (simp del: is_prefix.simps)
qed

text \<open>
  C3, as the code has it. The base name \<^verbatim>\<open>eplus\<close> is kept. A base name in
  which \<^verbatim>\<open>eplus-\<close> does not occur is kept. Otherwise the first occurrence of
  \<^verbatim>\<open>eplus-\<close> is removed wherever it stands, at the start of the name or after
  other characters, and the rest of the name is treated the same way, so that
  every occurrence goes. A file that parses is stored under the name so derived.
\<close>

theorem derive_name_removes_every_occurrence:
  "derive_name ''eplus'' = ''eplus''
   \<and> (\<not> contains ''eplus-'' base \<longrightarrow> derive_name base = base)
   \<and> (\<not> contains ''eplus-'' (a @ ''eplus'') \<longrightarrow>
        derive_name (a @ ''eplus-'' @ b) = a @ str_replace ''eplus-'' [] b)
   \<and> (is_csv file \<and> read_csv bytes = Some df \<longrightarrow>
        process_eplus_time_series read_csv dir [(file, File bytes)]
          = ([], Inr [derive_name (stripext file) \<mapsto> Frame df]))"
proof -
  have 1: "derive_name ''eplus'' = ''eplus''" by (simp add: derive_name_def)
  have 2: "\<not> contains ''eplus-'' base \<longrightarrow> derive_name base = base"
    by (simp add: derive_name_def str_replace_def replace_nonempty_absent)
  have 3: "\<not> contains ''eplus-'' (a @ ''eplus'') \<longrightarrow>
        derive_name (a @ ''eplus-'' @ b) = a @ str_replace ''eplus-'' [] b"
  proof
    assume h: "\<not> contains ''eplus-'' (a @ ''eplus'')"
    have "replace_nonempty ''eplus-'' [] (a @ ''eplus-'' @ b) = a @ [] @ replace_nonempty ''eplus-'' [] b"
      by (rule replace_nonempty_first) (use h in simp_all)
    moreover have "a @ ''eplus-'' @ b \<noteq> ''eplus''"
    proof
      assume "a @ ''eplus-'' @ b = ''eplus''"
      then have "length (a @ ''eplus-'' @ b) = length ''eplus''" by (rule arg_cong)
      then show False by simp
    qed
    ultimately show "derive_name (a @ ''eplus-'' @ b) = a @ str_replace ''eplus-'' [] b"
      by (simp add: derive_name_def str_replace_def)
  qed
  have 4: "is_csv file \<and> read_csv bytes = Some df \<longrightarrow>
        process_eplus_time_series read_csv dir [(file, File bytes)]
          = ([], Inr [derive_name (stripext file) \<mapsto> Frame df])"
    by (simp add: process_eplus_time_series_def csv_files_def)
  from 1 2 3 4 show ?thesis by blast
qed


theorem derive_name_removes_every_occurrence_witness:
  "derive_name ''meter'' = ''meter''
   \<and> derive_name (''zone-'' @ ''eplus-'' @ ''out'') = ''zone-out''
   \<and> is_csv ''eplus-meter.csv''
   \<and> process_eplus_time_series Some ''/run'' [(''eplus-meter.csv'', File ''a,b'')]
       = ([], Inr [''meter'' \<mapsto> Frame ''a,b''])"
proof -
  note T = derive_name_removes_every_occurrence
             [of "''meter''" "''zone-''" "''out''" "''eplus-meter.csv''" Some "''a,b''" "''a,b''"
                 "''/run''"]
  have a: "\<not> contains ''eplus-'' ''meter''" by simp
  have b: "\<not> contains ''eplus-'' (''zone-'' @ ''eplus'')" by simp
  have d: "is_csv ''eplus-meter.csv''" by (simp add: is_csv_def)
  have e: "Some ''a,b'' = Some ''a,b''" by simp
  have f: "derive_name (stripext ''eplus-meter.csv'') = ''meter''"
    by (simp add: stripext_def derive_name_def str_replace_def)
  have g: "''zone-'' @ str_replace ''eplus-'' [] ''out'' = ''zone-out''"
    by (simp add: str_replace_def)
  from T a have 1: "derive_name ''meter'' = ''meter''" by blast
  from T b have "derive_name (''zone-'' @ ''eplus-'' @ ''out'')
                   = ''zone-'' @ str_replace ''eplus-'' [] ''out''" by blast
  with g have 2: "derive_name (''zone-'' @ ''eplus-'' @ ''out'') = ''zone-out''"
    by (simp only:)
  from T d e have "process_eplus_time_series Some ''/run'' [(''eplus-meter.csv'', File ''a,b'')]
       = ([], Inr [derive_name (stripext ''eplus-meter.csv'') \<mapsto> Frame ''a,b''])" by blast
  with f have 4: "process_eplus_time_series Some ''/run'' [(''eplus-meter.csv'', File ''a,b'')]
       = ([], Inr [''meter'' \<mapsto> Frame ''a,b''])" by (simp only:)
  from 1 2 4 d show ?thesis by blast
qed

text \<open>
  A name that does not start with \<^verbatim>\<open>eplus-\<close> is changed all the same, and a
  name with the prefix twice loses both.
\<close>

theorem derive_name_not_only_prefix:
  "\<not> is_prefix ''eplus-'' ''zone-eplus-out'' \<and> derive_name ''zone-eplus-out'' = ''zone-out''
   \<and> derive_name ''eplus-eplus-meter'' = ''meter''
   \<and> snd (process_eplus_time_series Some ''/run'' [(''zone-eplus-out.csv'', File ''a,b'')])
       = Inr [''zone-out'' \<mapsto> Frame ''a,b'']"
  by (simp add: derive_name_def str_replace_def process_eplus_time_series_def csv_files_def
      is_csv_def stripext_def)

text \<open>
  C5, evaluated where the code leaves it. When \<^verbatim>\<open>pd.read_csv\<close> fails on a file
  whose bytes are not well-formed UTF-8, the warning is emitted and the fallback
  \<^verbatim>\<open>f.read()\<close> raises \<^verbatim>\<open>UnicodeDecodeError\<close> inside the handler:
  \<^verbatim>\<open>process_eplus_time_series\<close> raises and returns no mapping.
\<close>

theorem time_series_undecodable_file_raises:
  "is_csv file \<Longrightarrow> read_csv bytes = None \<Longrightarrow> \<not> utf8_ok (map of_char bytes) \<Longrightarrow>
   process_eplus_time_series read_csv dir [(file, File bytes)]
     = ([warning_text dir file], Inl UnicodeDecodeError)"
  by (simp add: process_eplus_time_series_def csv_files_def read_text_def)

theorem time_series_undecodable_file_raises_witness:
  "is_csv ''eplus-out.csv'' \<and> \<not> utf8_ok (map of_char [CHR 0xFF, CHR 0xFE, CHR 0x00])
   \<and> process_eplus_time_series (\<lambda>_. None :: string option) ''/run''
        [(''eplus-out.csv'', File [CHR 0xFF, CHR 0xFE, CHR 0x00])]
     = ([warning_text ''/run'' ''eplus-out.csv''], Inl UnicodeDecodeError)"
proof -
  have a: "is_csv ''eplus-out.csv''" by (simp add: is_csv_def)
  have b: "\<not> utf8_ok (map of_char [CHR 0xFF, CHR 0xFE, CHR 0x00])" by simp
  show ?thesis
    using a b time_series_undecodable_file_raises [OF a _ b, of "\<lambda>_. None" "''/run''"]
    by simp
qed

text \<open>
  The loop returns a mapping when every file that pandas cannot parse is
  well-formed UTF-8.
\<close>

lemma series_loop_returns:
  "\<forall>(f, b) \<in> set fs. read_csv b = None \<longrightarrow> utf8_ok (map of_char b) \<Longrightarrow>
   \<exists>ws' m. series_loop read_csv dir fs (ws, ts) = (ws', Inr m)"
proof (induction fs arbitrary: ws ts)
  case Nil
  then show ?case by simp
next
  case (Cons fb fs)
  obtain f b where fb: "fb = (f, b)" by (cases fb)
  from Cons.prems have rest: "\<forall>(f, b) \<in> set fs. read_csv b = None \<longrightarrow> utf8_ok (map of_char b)"
    by simp
  show ?case
  proof (cases "read_csv b")
    case (Some df)
    with Cons.IH[OF rest] fb show ?thesis by (simp add: Let_def)
  next
    case None
    with Cons.prems fb have "utf8_ok (map of_char b)" by simp
    with None Cons.IH[OF rest] fb show ?thesis by (simp add: Let_def read_text_def)
  qed
qed

lemma series_loop_warnings:
  "series_loop rd dir fs (ws, ts) = (ws', Inr m) \<Longrightarrow>
   ws' = ws @ map (\<lambda>(f, b). warning_text dir f) (filter (\<lambda>(f, b). rd b = None) fs)"
proof (induction fs arbitrary: ws ts)
  case Nil
  then show ?case by simp
next
  case (Cons fb fs)
  obtain f b where fb: "fb = (f, b)" by (cases fb)
  show ?case
  proof (cases "rd b")
    case (Some df)
    with Cons.prems fb have "series_loop rd dir fs (ws, ts(derive_name (stripext f) \<mapsto> Frame df))
        = (ws', Inr m)" by (simp add: Let_def)
    from Cons.IH[OF this] Some fb show ?thesis by simp
  next
    case None
    with Cons.prems fb obtain raw where
      "series_loop rd dir fs (ws @ [warning_text dir f], ts(derive_name (stripext f) \<mapsto> Raw raw))
        = (ws', Inr m)" by (auto simp: Let_def split: sum.splits)
    from Cons.IH[OF this] None fb show ?thesis by simp
  qed
qed

lemma series_loop_keeps:
  "series_loop rd dir post (ws, ts) = (ws', Inr m) \<Longrightarrow>
   \<forall>(g, c) \<in> set post. derive_name (stripext g) \<noteq> k \<Longrightarrow> m k = ts k"
proof (induction post arbitrary: ws ts)
  case Nil
  then show ?case by simp
next
  case (Cons fb post)
  obtain f b where fb: "fb = (f, b)" by (cases fb)
  from Cons.prems(2) fb have nk: "derive_name (stripext f) \<noteq> k"
    and rest: "\<forall>(g, c) \<in> set post. derive_name (stripext g) \<noteq> k" by auto
  from Cons.prems(1) fb obtain ws1 v where
    "series_loop rd dir post (ws1, ts(derive_name (stripext f) \<mapsto> v)) = (ws', Inr m)"
    by (auto simp: Let_def split: option.splits sum.splits)
  from Cons.IH[OF this rest] nk show ?case by simp
qed

lemma series_loop_last:
  "series_loop rd dir (pre @ (f, bytes) # post) (ws, ts) = (ws', Inr m) \<Longrightarrow>
   \<forall>(g, c) \<in> set post. derive_name (stripext g) \<noteq> derive_name (stripext f) \<Longrightarrow>
   m (derive_name (stripext f))
     = Some (case rd bytes of Some df \<Rightarrow> Frame df | None \<Rightarrow> Raw (universal_newlines bytes))"
proof (induction pre arbitrary: ws ts)
  case Nil
  from Nil.prems(1) obtain ws1 where
    "series_loop rd dir post (ws1, ts(derive_name (stripext f) \<mapsto>
        (case rd bytes of Some df \<Rightarrow> Frame df | None \<Rightarrow> Raw (universal_newlines bytes))))
      = (ws', Inr m)"
    by (auto simp: Let_def read_text_def split: option.splits sum.splits if_splits)
  from series_loop_keeps[OF this Nil.prems(2)] show ?case by simp
next
  case (Cons gb pre)
  obtain g b where gb: "gb = (g, b)" by (cases gb)
  from Cons.prems(1) gb obtain ws1 ts1 where
    "series_loop rd dir (pre @ (f, bytes) # post) (ws1, ts1) = (ws', Inr m)"
    by (auto simp: Let_def split: option.splits sum.splits)
  from Cons.IH[OF this Cons.prems(2)] show ?case .
qed

text \<open>
  C10. When \<^verbatim>\<open>process_eplus_time_series\<close> returns, the entry of a derived name
  is the value of the last CSV file of the listing that derives this name: the
  data frame if the file parses, its text otherwise. Whatever files before it
  derive the same name, their values are gone; the mapping has one entry for the
  name. Nothing tells of it: the warnings of the call are those of the files
  pandas could not parse, one each and in their order, and no other.
\<close>

theorem time_series_last_file_wins:
  "snd (process_eplus_time_series read_csv dir listing) = Inr m \<Longrightarrow>
   csv_files listing = pre @ (f, bytes) # post \<Longrightarrow>
   \<forall>(g, c) \<in> set post. derive_name (stripext g) \<noteq> derive_name (stripext f) \<Longrightarrow>
   m (derive_name (stripext f))
     = Some (case read_csv bytes of Some df \<Rightarrow> Frame df
             | None \<Rightarrow> Raw (universal_newlines bytes))
   \<and> fst (process_eplus_time_series read_csv dir listing)
     = map (\<lambda>(g, c). warning_text dir g)
         (filter (\<lambda>(g, c). read_csv c = None) (csv_files listing))"
proof -
  assume a: "snd (process_eplus_time_series read_csv dir listing) = Inr m"
    and b: "csv_files listing = pre @ (f, bytes) # post"
    and c: "\<forall>(g, c) \<in> set post. derive_name (stripext g) \<noteq> derive_name (stripext f)"
  from a obtain ws' where
    l: "series_loop read_csv dir (csv_files listing) ([], Map.empty) = (ws', Inr m)"
    by (cases "series_loop read_csv dir (csv_files listing) ([], Map.empty)")
       (simp add: process_eplus_time_series_def)
  from l b have "series_loop read_csv dir (pre @ (f, bytes) # post) ([], Map.empty) = (ws', Inr m)"
    by simp
  from series_loop_last[OF this c] have 1: "m (derive_name (stripext f))
     = Some (case read_csv bytes of Some df \<Rightarrow> Frame df
             | None \<Rightarrow> Raw (universal_newlines bytes))" .
  from series_loop_warnings[OF l] have "ws' = map (\<lambda>(g, c). warning_text dir g)
         (filter (\<lambda>(g, c). read_csv c = None) (csv_files listing))" by simp
  with l have 2: "fst (process_eplus_time_series read_csv dir listing)
     = map (\<lambda>(g, c). warning_text dir g)
         (filter (\<lambda>(g, c). read_csv c = None) (csv_files listing))"
    by (simp add: process_eplus_time_series_def)
  from 1 2 show ?thesis by blast
qed

theorem time_series_last_file_wins_witness:
  "process_eplus_time_series Some ''/run'' meter_listing = ([], Inr [''meter'' \<mapsto> Frame ''c,d''])
   \<and> csv_files meter_listing = [(''eplus-meter.csv'', ''a,b'')] @ (''meter.csv'', ''c,d'') # []
   \<and> derive_name (stripext ''eplus-meter.csv'') = derive_name (stripext ''meter.csv'')
   \<and> [''meter'' \<mapsto> Frame ''c,d''] (derive_name (stripext ''meter.csv'')) = Some (Frame ''c,d'')
   \<and> fst (process_eplus_time_series Some ''/run'' meter_listing) = []"
proof -
  have e: "process_eplus_time_series Some ''/run'' meter_listing
      = ([], Inr [''meter'' \<mapsto> Frame ''c,d''])"
    by (simp add: process_eplus_time_series_def meter_listing_def csv_files_def is_csv_def
        derive_name_def stripext_def str_replace_def)
  then have a: "snd (process_eplus_time_series Some ''/run'' meter_listing)
      = Inr [''meter'' \<mapsto> Frame ''c,d'']" by simp
  have b: "csv_files meter_listing = [(''eplus-meter.csv'', ''a,b'')] @ (''meter.csv'', ''c,d'') # []"
    by (simp add: meter_listing_def csv_files_def is_csv_def)
  have c: "\<forall>(g, c) \<in> set []. derive_name (stripext g) \<noteq> derive_name (stripext ''meter.csv'')"
    by simp
  have d: "derive_name (stripext ''eplus-meter.csv'') = derive_name (stripext ''meter.csv'')"
    by (simp add: derive_name_def stripext_def str_replace_def)
  note T = time_series_last_file_wins [OF a b c]
  from T have 1: "[''meter'' \<mapsto> Frame ''c,d''] (derive_name (stripext ''meter.csv''))
      = Some (Frame ''c,d'')" by simp
  from T b have 2: "fst (process_eplus_time_series Some ''/run'' meter_listing) = []"
    by simp
  from e b d 1 2 show ?thesis by blast
qed

end
